theory Spec2Isabelle
  imports Main
begin

section \<open>A Matrix client with end-to-end encryption: the module \<open>index.js\<close>\<close>

text \<open>
  The module keeps one global \<open>client\<close> and drives it through the Matrix SDK.  The
  SDK, the Olm library, the file system and the home server are outside the module;
  they appear here as an environment \<open>sdk_env\<close> that answers every outside call with
  either an error (\<open>Inl\<close>: the call throws, or its promise rejects) or a value
  (\<open>Inr\<close>).  What the module itself does to the outside world is recorded, in
  order, in a trace of effects.
\<close>

subsection \<open>JavaScript values the module handles\<close>

text \<open>
  A thrown or rejected value: an \<open>Error\<close>, a \<open>TypeError\<close> (a property read on
  \<open>undefined\<close> or \<open>null\<close>), or a plain string (\<open>reject("...")\<close>).
\<close>

datatype js_error = Error string | TypeError string | StringValue string

text \<open>\<open>err.message\<close>: a plain string has no such property.\<close>

fun err_message :: "js_error \<Rightarrow> string option" where
  "err_message (Error m) = Some m"
| "err_message (TypeError m) = Some m"
| "err_message (StringValue s) = None"

text \<open>\<open>new Error(m)\<close>: an undefined message gives the empty message.\<close>

definition new_Error :: "string option \<Rightarrow> js_error" where
  "new_Error m = (case m of None \<Rightarrow> Error [] | Some s \<Rightarrow> Error s)"

text \<open>An argument printed by \<open>console.log\<close> or \<open>console.error\<close>.\<close>

datatype log_arg = Str string | Err js_error | Undefined

definition message_arg :: "js_error \<Rightarrow> log_arg" where
  "message_arg e = (case err_message e of None \<Rightarrow> Undefined | Some m \<Rightarrow> Str m)"

text \<open>
  An object with string properties (the credentials): \<open>obj p = None\<close> when the
  property is absent.  A value is truthy when it is a non-empty string.
\<close>

type_synonym js_object = "string \<rightharpoonup> string"

definition truthy :: "string option \<Rightarrow> bool" where
  "truthy v = (case v of None \<Rightarrow> False | Some s \<Rightarrow> s \<noteq> [])"

text \<open>\<open>obj?.[p]\<close>, with \<open>None\<close> for an \<open>undefined\<close> or \<open>null\<close> object.\<close>

definition opt_prop :: "js_object option \<Rightarrow> string \<Rightarrow> string option" where
  "opt_prop obj p = (case obj of None \<Rightarrow> None | Some m \<Rightarrow> m p)"

text \<open>The second parameter of \<open>runClient\<close>: left out (the default \<open>{}\<close> applies),
  \<open>null\<close>, or an object.\<close>

datatype cred_arg = Omitted | Null | Obj js_object

fun credentials_of :: "cred_arg \<Rightarrow> js_object option" where
  "credentials_of Omitted = Some Map.empty"
| "credentials_of Null = None"
| "credentials_of (Obj m) = Some m"

subsection \<open>Rooms, members, events\<close>

record room_member =
  membership :: string
  member_userId :: string
  member_roomId :: string
  powerLevel :: int

record room =
  roomId :: string
  getMember :: "string \<Rightarrow> room_member option"

text \<open>The content of the \<open>m.room.power_levels\<close> state event; \<open>invite\<close> may be absent.\<close>

record power_levels =
  pl_invite :: "int option"

text \<open>A Matrix event as the listeners read it: \<open>getType()\<close>, \<open>getRoomId()\<close>,
  \<open>getContent().body\<close> (absent: \<open>None\<close>) and \<open>isDecryptionFailure()\<close>.\<close>

record event =
  getType :: string
  getRoomId :: string
  content_body :: "string option"
  isDecryptionFailure :: bool

record msg_content =
  body :: "string option"
  msgtype :: string

record auth_data =
  user_id :: string
  device_id :: string
  access_token :: string

subsection \<open>The client object and the module state\<close>

text \<open>The listeners the module registers with \<open>client.on\<close>, one constructor per
  function literal of the source.\<close>

datatype listener =
    AutoJoin
  | GetMessage
  | GetMessageEncrypted_decrypted
  | GetMessageEncrypted_failure
  | MessageListener string
  | MessageListenerEncrypted string

text \<open>
  What the module configures on the client: the options of \<open>sdk.createClient\<close>, the
  two global trust flags (\<open>None\<close> until the module sets them) and the registered
  listeners.
\<close>

record matrix_client =
  baseUrl :: "string option"
  accessToken :: string
  userId :: string
  deviceId :: string
  ignore_unknown_devices :: bool
  globalBlacklistUnverifiedDevices :: "bool option"
  globalErrorOnUnknownDevices :: "bool option"
  listeners :: "(string \<times> listener) list"

datatype effect =
    ConsoleLog "log_arg list"
  | ConsoleError "log_arg list"
  | Call_getCredentialsWithPassword "string option" "string option" "string option"
  | Call_initCrypto
  | Call_startClient nat
  | Call_bootstrapCrossSigning
  | Call_uploadDeviceSigningKeys auth_data
  | Call_login string "string option" "string option"
  | Call_joinRoom string
  | Call_setRoomEncryption string string
  | Call_sendEvent string string msg_content
  | Call_getStateEvent string string string
  | Call_roomInitialSync string nat
  | Call_invite string string
  | UnhandledRejection js_error

record state =
  client :: "matrix_client option"
  trace :: "effect list"

definition emit_effect :: "effect \<Rightarrow> state \<Rightarrow> state" where
  "emit_effect e st = st\<lparr>trace := trace st @ [e]\<rparr>"

definition add_listener :: "string \<Rightarrow> listener \<Rightarrow> matrix_client \<Rightarrow> matrix_client" where
  "add_listener name l c = c\<lparr>listeners := listeners c @ [(name, l)]\<rparr>"

text \<open>\<open>getClient\<close> and \<open>setClient\<close>.\<close>

definition getClient :: "state \<Rightarrow> matrix_client option" where
  "getClient st = client st"

definition setClient :: "matrix_client option \<Rightarrow> state \<Rightarrow> state" where
  "setClient newClient st = st\<lparr>client := newClient\<rparr>"

subsection \<open>The environment\<close>

text \<open>
  The answers of everything outside the module.  \<open>readFile_parse\<close> is
  \<open>JSON.parse(fs.readFileSync(path))\<close> (\<open>Inr None\<close>: a falsy value such as
  \<open>null\<close>); \<open>getCredentialsWithPassword\<close> is the login helper of \<open>./matrix\<close>,
  answering with access token, user id and device id.

  The SDK declares the callback of \<open>bootstrapCrossSigning\<close> as
  \<open>authUploadDeviceSigningKeys(makeRequest): Promise<void>\<close>: it hands the callback
  the function \<open>makeRequest\<close>, which uploads the signing keys with the credentials
  it is called with, and waits for the callback to finish.  \<open>bootstrap_calls_auth\<close>
  says whether the SDK calls the callback at all, \<open>uploadDeviceSigningKeys\<close> is the
  server's answer to an upload, and \<open>bootstrapCrossSigning\<close> answers from whether
  the callback finished or failed.

  \<open>setRoomEncryption_throws\<close> says whether a failing \<open>setRoomEncryption\<close>
  throws at the call instead of returning a rejected promise; the two differ only
  where the call is not awaited.
\<close>

record 'm sdk_env =
  olm_init :: "js_error + unit"
  readFile_parse :: "string \<Rightarrow> js_error + js_object option"
  getCredentialsWithPassword ::
    "string option \<Rightarrow> string option \<Rightarrow> string option \<Rightarrow> js_error + (string \<times> string \<times> string)"
  initCrypto :: "js_error + unit"
  isCryptoEnabled :: bool
  startClient :: "js_error + unit"
  getCrossSigningId :: "string option"
  login :: "string \<Rightarrow> string option \<Rightarrow> string option \<Rightarrow> js_error + string"
  bootstrap_calls_auth :: bool
  uploadDeviceSigningKeys :: "auth_data \<Rightarrow> js_error + unit"
  bootstrapCrossSigning :: "(js_error + unit) option \<Rightarrow> js_error + unit"
  joinRoom :: "string \<Rightarrow> js_error + unit"
  getRoom :: "string \<Rightarrow> room option"
  setRoomEncryption :: "string \<Rightarrow> string \<Rightarrow> js_error + unit"
  setRoomEncryption_throws :: bool
  isRoomEncrypted :: "string \<Rightarrow> bool"
  JSON_stringify :: "'m \<Rightarrow> js_error + string option"
  sendEvent :: "string \<Rightarrow> string \<Rightarrow> msg_content \<Rightarrow> js_error + unit"
  getStateEvent :: "string \<Rightarrow> string \<Rightarrow> string \<Rightarrow> js_error + power_levels"
  roomInitialSync :: "string \<Rightarrow> nat \<Rightarrow> js_error + unit"
  invite :: "string \<Rightarrow> string \<Rightarrow> js_error + unit"

subsection \<open>\<open>runClient\<close>\<close>

definition required_properties :: "string list" where
  "required_properties = [''homeserverUrl'', ''username'', ''password'']"

text \<open>\<open>Array.prototype.join\<close>.\<close>

fun join :: "string \<Rightarrow> string list \<Rightarrow> string" where
  "join sep [] = []"
| "join sep [x] = x"
| "join sep (x # y # ys) = x @ sep @ join sep (y # ys)"

definition missingProperties :: "js_object option \<Rightarrow> js_object option \<Rightarrow> string list" where
  "missingProperties fileData credentials =
     filter (\<lambda>p. \<not> truthy (opt_prop fileData p) \<and> \<not> truthy (opt_prop credentials p))
       ((if fileData \<noteq> None then required_properties else []) @ required_properties)"

definition hasOwnProperty :: "js_object \<Rightarrow> string \<Rightarrow> bool" where
  "hasOwnProperty obj p = (obj p \<noteq> None)"

definition select_data ::
  "js_object option \<Rightarrow> js_object option \<Rightarrow> string list \<Rightarrow> js_object option" where
  "select_data fileData credentials missing =
     (case credentials of
        None \<Rightarrow> fileData
      | Some cr \<Rightarrow>
          if fileData = None \<or> list_ex (hasOwnProperty cr) missing then credentials
          else fileData)"

text \<open>Lines 19 to 44: everything before the \<open>try\<close>.  An error here leaves
  \<open>runClient\<close> as a rejected promise.\<close>

definition load_credentials ::
  "'m sdk_env \<Rightarrow> string option \<Rightarrow> js_object option \<Rightarrow> js_error + js_object option" where
  "load_credentials env filePath credentials =
     (if \<not> truthy filePath \<and> credentials = None then
        Inl (Error ''Error: must provide either a file path or a object with username, password and homeserverUrl'')
      else
        (case olm_init env of
           Inl e \<Rightarrow> Inl e
         | Inr _ \<Rightarrow>
            (case (case filePath of
                     None \<Rightarrow> Inr None
                   | Some path \<Rightarrow> if path = [] then Inr None else readFile_parse env path) of
               Inl e \<Rightarrow> Inl e
             | Inr fileData \<Rightarrow>
                 let missing = missingProperties fileData credentials in
                 if length missing > 0 then
                   Inl (Error (''Error: missing properties, needed properties: '' @ join '', '' missing))
                 else Inr (select_data fileData credentials missing))))"

definition createClient :: "string option \<Rightarrow> string \<Rightarrow> string \<Rightarrow> string \<Rightarrow> matrix_client" where
  "createClient url token uid did =
     \<lparr>baseUrl = url, accessToken = token, userId = uid, deviceId = did,
      ignore_unknown_devices = True,
      globalBlacklistUnverifiedDevices = None,
      globalErrorOnUnknownDevices = None,
      listeners = []\<rparr>"

text \<open>The function the SDK hands to the callback: the upload of the signing keys
  with the given credentials.\<close>

definition makeRequest ::
  "'m sdk_env \<Rightarrow> auth_data \<Rightarrow> state \<Rightarrow> (js_error + unit) \<times> state" where
  "makeRequest env authData st =
     (uploadDeviceSigningKeys env authData,
      emit_effect (Call_uploadDeviceSigningKeys authData) st)"

text \<open>The callback handed to \<open>bootstrapCrossSigning\<close> (lines 80 to 95): a password
  login, whose answer supplies the access token of the returned credentials.  The
  source declares it as \<open>async function ()\<close>, with no parameter, so the function
  \<open>mk\<close> the SDK calls it with is not used in its body.\<close>

definition authUploadDeviceSigningKeys ::
  "'m sdk_env \<Rightarrow> js_object option \<Rightarrow> (auth_data \<Rightarrow> state \<Rightarrow> (js_error + unit) \<times> state)
     \<Rightarrow> state \<Rightarrow> (js_error + auth_data) \<times> state" where
  "authUploadDeviceSigningKeys env data mk st =
     (case client st of
        None \<Rightarrow> (Inl (TypeError ''Cannot read properties of undefined (reading login)''), st)
      | Some c \<Rightarrow>
         (case data of
            None \<Rightarrow> (Inl (TypeError ''Cannot read properties of undefined (reading username)''), st)
          | Some d \<Rightarrow>
             let st1 = emit_effect (Call_login ''m.login.password'' (d ''username'') (d ''password'')) st in
             (case login env ''m.login.password'' (d ''username'') (d ''password'') of
                Inl e \<Rightarrow> (Inl e, st1)
              | Inr response_access_token \<Rightarrow>
                  (Inr \<lparr>user_id = userId c, device_id = deviceId c,
                        access_token = response_access_token\<rparr>, st1))))"

text \<open>Lines 78 to 97.  The SDK calls the callback with \<open>makeRequest\<close> and learns
  only whether it finished; the value the callback returns is dropped.\<close>

definition bootstrap_if_needed ::
  "'m sdk_env \<Rightarrow> js_object option \<Rightarrow> state \<Rightarrow> (js_error + unit) \<times> state" where
  "bootstrap_if_needed env data st =
     (if \<not> truthy (getCrossSigningId env) then
        let st1 = emit_effect Call_bootstrapCrossSigning st in
        if bootstrap_calls_auth env then
          (case authUploadDeviceSigningKeys env data (makeRequest env) st1 of
             (Inl e, st2) \<Rightarrow> (bootstrapCrossSigning env (Some (Inl e)), st2)
           | (Inr returned, st2) \<Rightarrow> (bootstrapCrossSigning env (Some (Inr ())), st2))
        else (bootstrapCrossSigning env None, st1)
      else (Inr (), st))"

text \<open>Lines 61 to 76: the membership listener, the two global flags, the start of the
  client.\<close>

definition configure_client :: "matrix_client \<Rightarrow> matrix_client" where
  "configure_client c =
     (add_listener ''RoomMember.membership'' AutoJoin c)
       \<lparr>globalBlacklistUnverifiedDevices := Some False,
        globalErrorOnUnknownDevices := Some False\<rparr>"

definition start_if_crypto :: "'m sdk_env \<Rightarrow> state \<Rightarrow> (js_error + unit) \<times> state" where
  "start_if_crypto env st =
     (if isCryptoEnabled env then
        let st1 = emit_effect (Call_startClient 1)
                    (emit_effect (ConsoleLog [Str ''STARTING client, crypto enabled'']) st) in
        (case startClient env of Inl e \<Rightarrow> (Inl e, st1) | Inr _ \<Rightarrow> (Inr (), st1))
      else (Inr (), st))"

text \<open>The body of the \<open>try\<close> (lines 47 to 97); \<open>Inl\<close> is the error that reaches
  the \<open>catch\<close>.\<close>

definition runClient_try ::
  "'m sdk_env \<Rightarrow> js_object option \<Rightarrow> state \<Rightarrow> (js_error + unit) \<times> state" where
  "runClient_try env data st =
     (case data of
        None \<Rightarrow> (Inl (TypeError ''Cannot read properties of undefined (reading username)''), st)
      | Some d \<Rightarrow>
         let st1 = emit_effect
               (Call_getCredentialsWithPassword (d ''username'') (d ''password'') (d ''homeserverUrl'')) st in
         (case getCredentialsWithPassword env (d ''username'') (d ''password'') (d ''homeserverUrl'') of
            Inl e \<Rightarrow> (Inl e, st1)
          | Inr (token, uid, did) \<Rightarrow>
             let st2 = emit_effect Call_initCrypto
                   (st1\<lparr>client := Some (createClient (d ''homeserverUrl'') token uid did)\<rparr>) in
             (case initCrypto env of
                Inl e \<Rightarrow> (Inl e, st2)
              | Inr _ \<Rightarrow>
                 let st3 = st2\<lparr>client := map_option configure_client (client st2)\<rparr> in
                 (case start_if_crypto env st3 of
                    (Inl e, st4) \<Rightarrow> (Inl e, st4)
                  | (Inr _, st4) \<Rightarrow> bootstrap_if_needed env data st4))))"

text \<open>\<open>runClient\<close>: the first component is the outcome of the returned promise
  (\<open>Inl\<close>: rejected).  The \<open>catch\<close> of line 98 prints the message and returns.\<close>

definition runClient ::
  "'m sdk_env \<Rightarrow> string option \<Rightarrow> cred_arg \<Rightarrow> state \<Rightarrow> (js_error + unit) \<times> state" where
  "runClient env filePath credentials st =
     (case load_credentials env filePath (credentials_of credentials) of
        Inl e \<Rightarrow> (Inl e, st)
      | Inr data \<Rightarrow>
         (case runClient_try env data st of
            (Inl err, st') \<Rightarrow> (Inr (), emit_effect (ConsoleError [message_arg err]) st')
          | (Inr _, st') \<Rightarrow> (Inr (), st')))"

text \<open>The listener of \<open>RoomMember.membership\<close> (lines 61 to 67).  \<open>client\<close> is read
  only when the membership is \<open>invite\<close>; a rejected \<open>joinRoom\<close> has no handler.\<close>

definition on_RoomMember_membership ::
  "'m sdk_env \<Rightarrow> room_member \<Rightarrow> state \<Rightarrow> (js_error + unit) \<times> state" where
  "on_RoomMember_membership env member st =
     (if membership member = ''invite'' then
        (case client st of
           None \<Rightarrow> (Inl (TypeError ''Cannot read properties of undefined (reading getUserId)''), st)
         | Some c \<Rightarrow>
            if member_userId member = userId c then
              let st1 = emit_effect (Call_joinRoom (member_roomId member)) st in
              (case joinRoom env (member_roomId member) of
                 Inl e \<Rightarrow> (Inr (), emit_effect (UnhandledRejection e) st1)
               | Inr _ \<Rightarrow>
                  (Inr (), emit_effect
                     (ConsoleLog [Str ''Auto-joined %s'', Str (member_roomId member)]) st1))
            else (Inr (), st))
      else (Inr (), st))"

subsection \<open>Sending\<close>

definition megolm :: string where
  "megolm = ''m.megolm.v1.aes-sha2''"

text \<open>\<open>isUserJoinedInRoom\<close> (lines 195 to 205).  The source returns
  \<open>member && member.membership === "join"\<close>; its callers only test the truth of
  the result, so a missing member is \<open>False\<close> here.\<close>

definition isUserJoinedInRoom :: "'m sdk_env \<Rightarrow> string \<Rightarrow> state \<Rightarrow> js_error + bool" where
  "isUserJoinedInRoom env rid st =
     (case client st of
        None \<Rightarrow> Inl (Error ''Client is not initialized.'')
      | Some c \<Rightarrow>
         (case getRoom env rid of
            None \<Rightarrow> Inr False
          | Some r \<Rightarrow>
             (case getMember r (userId c) of
                None \<Rightarrow> Inr False
              | Some member \<Rightarrow> Inr (membership member = ''join''))))"

text \<open>The body of the \<open>try\<close> of \<open>sendEncryptedMessage\<close> (lines 110 to 120).  The
  answer of \<open>isUserJoinedInRoom\<close> is awaited and not used.\<close>

definition sendEncryptedMessage_try ::
  "'m sdk_env \<Rightarrow> string \<Rightarrow> 'm \<Rightarrow> state \<Rightarrow> (js_error + unit) \<times> state" where
  "sendEncryptedMessage_try env rid msg st =
     (case isUserJoinedInRoom env rid st of
        Inl e \<Rightarrow> (Inl e, st)
      | Inr _ \<Rightarrow>
         let st1 = emit_effect (Call_setRoomEncryption rid megolm) st in
         (case setRoomEncryption env rid megolm of
            Inl e \<Rightarrow> (Inl e, st1)
          | Inr _ \<Rightarrow>
             (case JSON_stringify env msg of
                Inl e \<Rightarrow> (Inl e, st1)
              | Inr b \<Rightarrow>
                 let content = \<lparr>body = b, msgtype = ''m.text''\<rparr>;
                     st2 = emit_effect (Call_sendEvent rid ''m.room.message'' content) st1 in
                 (case sendEvent env rid ''m.room.message'' content of
                    Inl e \<Rightarrow> (Inl e, st2)
                  | Inr _ \<Rightarrow>
                     (Inr (), emit_effect
                        (ConsoleLog [Str ''Encrypted message sent successfully.'']) st2)))))"

text \<open>\<open>sendEncryptedMessage\<close> (lines 108 to 124): the \<open>catch\<close> prints the error and
  the function returns.\<close>

definition sendEncryptedMessage ::
  "'m sdk_env \<Rightarrow> string \<Rightarrow> 'm \<Rightarrow> state \<Rightarrow> (js_error + unit) \<times> state" where
  "sendEncryptedMessage env rid msg st =
     (case sendEncryptedMessage_try env rid msg st of
        (Inl error, st') \<Rightarrow>
          (Inr (), emit_effect
             (ConsoleError [Str ''Error sending encrypted message:'', Err error]) st')
      | (Inr _, st') \<Rightarrow> (Inr (), st'))"

subsection \<open>Receiving\<close>

datatype 'a promise = Pending | Fulfilled 'a | Rejected js_error

text \<open>What one run of a listener does: it throws out of the listener, calls
  \<open>resolve\<close>, calls the caller's callback, calls \<open>reject\<close>, or does nothing.\<close>

datatype action =
    Throw js_error
  | Resolve "string option"
  | Callback "string option"
  | Reject js_error
  | NoAction

text \<open>A promise settles once: later calls of \<open>resolve\<close> and \<open>reject\<close> are lost.\<close>

fun settle :: "string option promise \<Rightarrow> action \<Rightarrow> string option promise" where
  "settle Pending (Resolve v) = Fulfilled v"
| "settle Pending (Reject e) = Rejected e"
| "settle p a = p"

text \<open>\<open>client.on\<close> on the global client.\<close>

definition client_on :: "string \<Rightarrow> listener \<Rightarrow> state \<Rightarrow> js_error + state" where
  "client_on name l st =
     (case client st of
        None \<Rightarrow> Inl (TypeError ''Cannot read properties of undefined (reading on)'')
      | Some c \<Rightarrow> Inr (st\<lparr>client := Some (add_listener name l c)\<rparr>))"

text \<open>\<open>getMessage\<close> (lines 139 to 152) and its \<open>Room.timeline\<close> listener.\<close>

definition getMessage :: "state \<Rightarrow> string option promise \<times> state" where
  "getMessage st =
     (case client_on ''Room.timeline'' GetMessage st of
        Inl e \<Rightarrow> (Rejected e, st)
      | Inr st' \<Rightarrow> (Pending, st'))"

definition getMessage_listener :: "event \<Rightarrow> room option \<Rightarrow> bool \<Rightarrow> action" where
  "getMessage_listener ev rm toStartOfTimeline =
     (if toStartOfTimeline then NoAction
      else if getType ev \<noteq> ''m.room.message'' then NoAction
      else Resolve (content_body ev))"

text \<open>\<open>messageListener\<close> (lines 212 to 226) and its \<open>Room.timeline\<close> listener.\<close>

definition messageListener :: "string \<Rightarrow> state \<Rightarrow> (js_error + unit) \<times> state" where
  "messageListener rid st =
     (case client_on ''Room.timeline'' (MessageListener rid) st of
        Inl e \<Rightarrow> (Inl e, st)
      | Inr st' \<Rightarrow> (Inr (), st'))"

definition messageListener_listener :: "string \<Rightarrow> event \<Rightarrow> room option \<Rightarrow> bool \<Rightarrow> action" where
  "messageListener_listener rid ev rm toStartOfTimeline =
     (if toStartOfTimeline then NoAction
      else if getType ev \<noteq> ''m.room.message'' then NoAction
      else
        (case rm of
           None \<Rightarrow> Throw (TypeError ''Cannot read properties of undefined (reading roomId)'')
         | Some r \<Rightarrow>
            if rid \<noteq> roomId r then Throw (Error ''Error: wrong room'')
            else Callback (content_body ev)))"

text \<open>\<open>getMessageEncrypted\<close> (lines 159 to 193).  The executor is an \<open>async\<close>
  function: an error of an awaited call rejects the executor's own promise, which
  nobody handles, and leaves the returned promise pending.\<close>

definition getMessageEncrypted ::
  "'m sdk_env \<Rightarrow> string \<Rightarrow> state \<Rightarrow> string option promise \<times> state" where
  "getMessageEncrypted env rid st =
     (case isUserJoinedInRoom env rid st of
        Inl e \<Rightarrow> (Pending, emit_effect (UnhandledRejection e) st)
      | Inr isJoined \<Rightarrow>
         if \<not> isJoined then
           (Rejected (StringValue ''Client is not a member of the room''),
            emit_effect (ConsoleLog [Str ''Client is not a member of the room'']) st)
         else
           let st1 = emit_effect (Call_setRoomEncryption rid megolm) st in
           (case setRoomEncryption env rid megolm of
              Inl e \<Rightarrow> (Pending, emit_effect (UnhandledRejection e) st1)
            | Inr _ \<Rightarrow>
               (case (if isRoomEncrypted env rid then
                        client_on ''Event.decrypted'' GetMessageEncrypted_decrypted
                          (emit_effect (ConsoleLog [Str ''ROOM IS ENCRYPTED'']) st1)
                      else Inr (emit_effect (ConsoleLog [Str ''ERROR, NOT ENCRYPTED'']) st1)) of
                  Inl e \<Rightarrow> (Pending, emit_effect (UnhandledRejection e) st1)
                | Inr st2 \<Rightarrow>
                   (case client_on ''Event.decryption_failure'' GetMessageEncrypted_failure st2 of
                      Inl e \<Rightarrow> (Pending, emit_effect (UnhandledRejection e) st2)
                    | Inr st3 \<Rightarrow> (Pending, st3)))))"

text \<open>The \<open>Event.decrypted\<close> listener of \<open>getMessageEncrypted\<close> (lines 174 to 181).\<close>

definition getMessageEncrypted_listener :: "event \<Rightarrow> action" where
  "getMessageEncrypted_listener ev =
     (if getType ev = ''m.room.encrypted'' \<and> isDecryptionFailure ev then
        Throw (Error ''Failed to decrypt message: '')
      else if getType ev = ''m.room.message'' then Resolve (content_body ev)
      else NoAction)"

text \<open>Its \<open>Event.decryption_failure\<close> listener (lines 188 to 191).\<close>

definition getMessageEncrypted_failure_listener :: "js_error \<Rightarrow> state \<Rightarrow> action \<times> state" where
  "getMessageEncrypted_failure_listener err st =
     (Reject err, emit_effect (ConsoleError [Str ''Error decrypting event: '', Err err]) st)"

text \<open>\<open>messageListenerEncrypted\<close> (lines 233 to 255): nothing is returned, and both
  promise chains end in a \<open>catch\<close> that prints.  \<open>setRoomEncryption\<close> is called
  inside the callback of the outer chain and not awaited: when it throws at the call,
  the error reaches the outer \<open>catch\<close>; when its promise is rejected, the inner
  one.\<close>

definition messageListenerEncrypted :: "'m sdk_env \<Rightarrow> string \<Rightarrow> state \<Rightarrow> state" where
  "messageListenerEncrypted env rid st =
     (case isUserJoinedInRoom env rid st of
        Inl er \<Rightarrow>
          emit_effect (ConsoleError
            [Str ''Error while checking user's room join status:'', Err er]) st
      | Inr _ \<Rightarrow>
         let st1 = emit_effect (Call_setRoomEncryption rid megolm) st in
         (case setRoomEncryption env rid megolm of
            Inl er \<Rightarrow>
              if setRoomEncryption_throws env then
                emit_effect (ConsoleError
                  [Str ''Error while checking user's room join status:'', Err er]) st1
              else
                emit_effect (ConsoleError
                  [Str ''Error while setting room encryption:'', Err er]) st1
          | Inr _ \<Rightarrow>
             (case client_on ''Event.decrypted'' (MessageListenerEncrypted rid) st1 of
                Inl er \<Rightarrow>
                  emit_effect (ConsoleError
                    [Str ''Error while setting room encryption:'', Err er]) st1
              | Inr st2 \<Rightarrow> st2)))"

text \<open>Its \<open>Event.decrypted\<close> listener (lines 239 to 248).\<close>

definition messageListenerEncrypted_listener :: "string \<Rightarrow> event \<Rightarrow> action" where
  "messageListenerEncrypted_listener rid ev =
     (if getRoomId ev = rid then
        (if getType ev = ''m.room.encrypted'' \<and> isDecryptionFailure ev then
           Throw (Error ''Failed to decrypt message: '')
         else if getType ev = ''m.room.message'' then Callback (content_body ev)
         else NoAction)
      else NoAction)"

subsection \<open>Inviting\<close>

text \<open>\<open>a > b\<close> where \<open>a\<close> may be \<open>undefined\<close>: the comparison with
  \<open>undefined\<close> is false.\<close>

definition js_gt :: "int option \<Rightarrow> int \<Rightarrow> bool" where
  "js_gt a b = (case a of None \<Rightarrow> False | Some x \<Rightarrow> x > b)"

text \<open>\<open>getMyPowerLevel\<close> (lines 278 to 287): any error is thrown again as a new
  \<open>Error\<close> with the same message.\<close>

definition getMyPowerLevel_try :: "'m sdk_env \<Rightarrow> string \<Rightarrow> state \<Rightarrow> (js_error + int) \<times> state" where
  "getMyPowerLevel_try env rid st =
     (case client st of
        None \<Rightarrow> (Inl (TypeError ''Cannot read properties of undefined (reading roomInitialSync)''), st)
      | Some c \<Rightarrow>
         let st1 = emit_effect (Call_roomInitialSync rid 10) st in
         (case roomInitialSync env rid 10 of
            Inl e \<Rightarrow> (Inl e, st1)
          | Inr _ \<Rightarrow>
             (case getRoom env rid of
                None \<Rightarrow> (Inl (TypeError ''Cannot read properties of null (reading getMember)''), st1)
              | Some r \<Rightarrow>
                 (case getMember r (userId c) of
                    None \<Rightarrow> (Inl (TypeError ''Cannot read properties of null (reading powerLevel)''), st1)
                  | Some me \<Rightarrow> (Inr (powerLevel me), st1)))))"

definition getMyPowerLevel :: "'m sdk_env \<Rightarrow> string \<Rightarrow> state \<Rightarrow> (js_error + int) \<times> state" where
  "getMyPowerLevel env rid st =
     (case getMyPowerLevel_try env rid st of
        (Inl error, st') \<Rightarrow> (Inl (new_Error (err_message error)), st')
      | (Inr level, st') \<Rightarrow> (Inr level, st'))"

text \<open>\<open>inviteUser\<close> (lines 262 to 269).\<close>

definition permission_error :: js_error where
  "permission_error = Error ''Error: You dont have permission to invite users''"

definition inviteUser :: "'m sdk_env \<Rightarrow> string \<Rightarrow> string \<Rightarrow> state \<Rightarrow> (js_error + unit) \<times> state" where
  "inviteUser env rid uid st =
     (case client st of
        None \<Rightarrow> (Inl (TypeError ''Cannot read properties of undefined (reading getStateEvent)''), st)
      | Some c \<Rightarrow>
         let st1 = emit_effect (Call_getStateEvent rid ''m.room.power_levels'' []) st in
         (case getStateEvent env rid ''m.room.power_levels'' [] of
            Inl e \<Rightarrow> (Inl e, st1)
          | Inr powerLevels \<Rightarrow>
             (case getMyPowerLevel env rid st1 of
                (Inl e, st2) \<Rightarrow> (Inl e, st2)
              | (Inr myPowerLevel, st2) \<Rightarrow>
                 if js_gt (pl_invite powerLevels) myPowerLevel then (Inl permission_error, st2)
                 else
                   let st3 = emit_effect (Call_invite rid uid) st2 in
                   (case invite env rid uid of
                      Inl e \<Rightarrow> (Inl e, st3)
                    | Inr _ \<Rightarrow> (Inr (), st3)))))"

subsection \<open>Observing a run\<close>

text \<open>The effects a step has added to the trace.\<close>

definition new_effects :: "state \<Rightarrow> state \<Rightarrow> effect list" where
  "new_effects st st' = drop (length (trace st)) (trace st')"

fun is_joinRoom :: "effect \<Rightarrow> bool" where
  "is_joinRoom (Call_joinRoom r) = True"
| "is_joinRoom e = False"

fun is_setRoomEncryption :: "effect \<Rightarrow> bool" where
  "is_setRoomEncryption (Call_setRoomEncryption r a) = True"
| "is_setRoomEncryption e = False"

text \<open>The rooms the membership listener asks to join for one event.\<close>

definition joined_rooms :: "'m sdk_env \<Rightarrow> room_member \<Rightarrow> state \<Rightarrow> string list" where
  "joined_rooms env member st =
     map (\<lambda>e. case e of Call_joinRoom r \<Rightarrow> r | _ \<Rightarrow> [])
       (filter is_joinRoom (new_effects st (snd (on_RoomMember_membership env member st))))"

text \<open>The trust settings of the client: \<open>ignore_unknown_devices\<close>, the global
  blacklist of unverified devices, the global error on unknown devices.  None of them
  is indexed by a room.\<close>

definition trust_flags :: "state \<Rightarrow> (bool \<times> bool option \<times> bool option) option" where
  "trust_flags st =
     map_option (\<lambda>c. (ignore_unknown_devices c, globalBlacklistUnverifiedDevices c,
                       globalErrorOnUnknownDevices c)) (client st)"

subsection \<open>A concrete home server\<close>

text \<open>
  One user, one room she has joined with power level 50, a server on which every call
  succeeds, and whose upload of signing keys accepts only the token of the fresh login.
\<close>

definition alice :: string where
  "alice = ''@alice:example.org''"

definition lobby :: string where
  "lobby = ''!lobby:example.org''"

definition alice_in_lobby :: room_member where
  "alice_in_lobby =
     \<lparr>membership = ''join'', member_userId = alice, member_roomId = lobby, powerLevel = 50\<rparr>"

definition lobby_room :: room where
  "lobby_room =
     \<lparr>roomId = lobby, getMember = (\<lambda>u. if u = alice then Some alice_in_lobby else None)\<rparr>"

definition example_env :: "string sdk_env" where
  "example_env =
     \<lparr>olm_init = Inr (),
      readFile_parse = (\<lambda>path. Inl (Error ''ENOENT'')),
      getCredentialsWithPassword = (\<lambda>u p h. Inr (''cached-token'', alice, ''DEVICE'')),
      initCrypto = Inr (),
      isCryptoEnabled = True,
      startClient = Inr (),
      getCrossSigningId = None,
      login = (\<lambda>t u p. Inr ''fresh-token''),
      bootstrap_calls_auth = True,
      uploadDeviceSigningKeys =
        (\<lambda>a. if access_token a = ''fresh-token'' then Inr () else Inl (Error ''M_FORBIDDEN'')),
      bootstrapCrossSigning =
        (\<lambda>r. case r of Some (Inl e) \<Rightarrow> Inl e | _ \<Rightarrow> Inr ()),
      joinRoom = (\<lambda>r. Inr ()),
      getRoom = (\<lambda>r. if r = lobby then Some lobby_room else None),
      setRoomEncryption = (\<lambda>r a. Inr ()),
      setRoomEncryption_throws = False,
      isRoomEncrypted = (\<lambda>r. True),
      JSON_stringify = (\<lambda>m. Inr (Some m)),
      sendEvent = (\<lambda>r t c. Inr ()),
      getStateEvent = (\<lambda>r t k. Inr \<lparr>pl_invite = Some 50\<rparr>),
      roomInitialSync = (\<lambda>r n. Inr ()),
      invite = (\<lambda>r u. Inr ())\<rparr>"

text \<open>The same server when the account already has a cross-signing identity, when
  the send is refused, when the password is wrong, and when inviting needs level 100.\<close>

definition cross_signed_env :: "string sdk_env" where
  "cross_signed_env = example_env\<lparr>getCrossSigningId := Some ''master-key''\<rparr>"


definition wrong_password_env :: "string sdk_env" where
  "wrong_password_env = example_env\<lparr>getCredentialsWithPassword :=
     (\<lambda>u p h. Inl (Error ''Invalid username or password''))\<rparr>"

definition admin_only_env :: "string sdk_env" where
  "admin_only_env = example_env\<lparr>getStateEvent := (\<lambda>r t k. Inr \<lparr>pl_invite = Some 100\<rparr>)\<rparr>"

definition alice_credentials :: js_object where
  "alice_credentials =
     [''homeserverUrl'' \<mapsto> ''https://example.org'', ''username'' \<mapsto> ''alice'',
      ''password'' \<mapsto> ''secret'']"

definition initial_state :: state where
  "initial_state = \<lparr>client = None, trace = []\<rparr>"

definition alice_client :: matrix_client where
  "alice_client =
     configure_client (createClient (Some ''https://example.org'') ''cached-token'' alice ''DEVICE'')"

definition running_state :: state where
  "running_state = \<lparr>client = Some alice_client, trace = []\<rparr>"

definition undecryptable :: event where
  "undecryptable =
     \<lparr>getType = ''m.room.encrypted'', getRoomId = lobby,
      content_body = None, isDecryptionFailure = True\<rparr>"

definition greeting :: event where
  "greeting =
     \<lparr>getType = ''m.room.message'', getRoomId = lobby,
      content_body = Some ''hello'', isDecryptionFailure = False\<rparr>"

definition invitation :: "string \<Rightarrow> room_member" where
  "invitation uid =
     \<lparr>membership = ''invite'', member_userId = uid, member_roomId = lobby, powerLevel = 0\<rparr>"


section \<open>Properties\<close>

subsection \<open>Auxiliary facts\<close>

lemmas example_defs =
  example_env_def lobby_room_def alice_in_lobby_def alice_client_def running_state_def
  initial_state_def alice_credentials_def alice_def lobby_def configure_client_def
  createClient_def add_listener_def

lemma new_effects_append: "trace st' = trace st @ es \<Longrightarrow> new_effects st st' = es"
  by (simp add: new_effects_def)

lemma load_alice_credentials:
  "olm_init env = Inr () \<Longrightarrow>
   load_credentials env None (credentials_of (Obj alice_credentials)) = Inr (Some alice_credentials)"
  by (simp add: load_credentials_def alice_credentials_def truthy_def missingProperties_def
      required_properties_def opt_prop_def select_data_def)

text \<open>When the checks before the \<open>try\<close> pass, there are credentials to log in
  with.\<close>

lemma load_credentials_data:
  "load_credentials env fp credentials = Inr data \<Longrightarrow> data \<noteq> None"
  by (auto simp add: load_credentials_def select_data_def missingProperties_def
      required_properties_def opt_prop_def truthy_def Let_def
      split: if_splits sum.splits option.splits)

text \<open>Once the login helper and \<open>initCrypto\<close> have succeeded, the global client is
  the configured one, whatever happens later in \<open>runClient\<close>.\<close>

lemma runClient_setup:
  assumes "load_credentials env fp (credentials_of cr) = Inr (Some d)"
      and "getCredentialsWithPassword env (d ''username'') (d ''password'') (d ''homeserverUrl'')
           = Inr (tok, uid, did)"
      and "initCrypto env = Inr ()"
  shows "client (snd (runClient env fp cr st))
         = Some (configure_client (createClient (d ''homeserverUrl'') tok uid did))"
  using assms
  by (auto simp add: runClient_def runClient_try_def start_if_crypto_def bootstrap_if_needed_def
      authUploadDeviceSigningKeys_def emit_effect_def Let_def
      split: sum.splits prod.splits option.splits if_splits)

text \<open>The whole trace of a first start on which every call succeeds.\<close>

lemma runClient_bootstrap_trace:
  assumes "load_credentials env fp (credentials_of cr) = Inr (Some d)"
      and "getCredentialsWithPassword env (d ''username'') (d ''password'') (d ''homeserverUrl'')
           = Inr (tok, uid, did)"
      and "initCrypto env = Inr ()"
      and "isCryptoEnabled env \<longrightarrow> startClient env = Inr ()"
      and "\<not> truthy (getCrossSigningId env)"
      and "bootstrap_calls_auth env"
      and "login env ''m.login.password'' (d ''username'') (d ''password'') = Inr fresh"
  shows "new_effects st (snd (runClient env fp cr st)) =
       [Call_getCredentialsWithPassword (d ''username'') (d ''password'') (d ''homeserverUrl''),
        Call_initCrypto]
       @ (if isCryptoEnabled env
          then [ConsoleLog [Str ''STARTING client, crypto enabled''], Call_startClient 1] else [])
       @ [Call_bootstrapCrossSigning,
          Call_login ''m.login.password'' (d ''username'') (d ''password'')]
       @ (case bootstrapCrossSigning env (Some (Inr ())) of
            Inl e \<Rightarrow> [ConsoleError [message_arg e]]
          | Inr _ \<Rightarrow> [])"
  using assms
  by (auto simp add: runClient_def runClient_try_def start_if_crypto_def bootstrap_if_needed_def
      authUploadDeviceSigningKeys_def emit_effect_def Let_def new_effects_def
      configure_client_def createClient_def add_listener_def
      split: sum.splits prod.splits option.splits if_splits)

lemma runClient_no_bootstrap:
  assumes "truthy (getCrossSigningId env)"
  shows "Call_bootstrapCrossSigning \<notin> set (new_effects st (snd (runClient env fp cr st)))
       \<and> (\<forall>t u p. Call_login t u p \<notin> set (new_effects st (snd (runClient env fp cr st))))"
  using assms
  by (auto simp add: runClient_def runClient_try_def start_if_crypto_def bootstrap_if_needed_def
      emit_effect_def Let_def new_effects_def
      split: sum.splits prod.splits option.splits if_splits)

text \<open>The callback does the same whatever function it is called with, and asks for
  no upload.\<close>

lemma authUploadDeviceSigningKeys_ignores_argument:
  "authUploadDeviceSigningKeys env data mk st = authUploadDeviceSigningKeys env data mk' st"
  by (simp add: authUploadDeviceSigningKeys_def)

lemma authUploadDeviceSigningKeys_returns_fresh_token:
  assumes "client st = Some c"
      and "login env ''m.login.password'' (d ''username'') (d ''password'') = Inr fresh"
  shows "authUploadDeviceSigningKeys env (Some d) mk st =
           (Inr \<lparr>user_id = userId c, device_id = deviceId c, access_token = fresh\<rparr>,
            emit_effect (Call_login ''m.login.password'' (d ''username'') (d ''password'')) st)"
  using assms by (simp add: authUploadDeviceSigningKeys_def)

lemma authUploadDeviceSigningKeys_trace:
  "\<exists>es. trace (snd (authUploadDeviceSigningKeys env data mk st)) = trace st @ es
        \<and> (\<forall>a. Call_uploadDeviceSigningKeys a \<notin> set es)"
  by (auto simp add: authUploadDeviceSigningKeys_def emit_effect_def Let_def
      split: option.splits sum.splits)

lemma bootstrap_if_needed_trace:
  "\<exists>es. trace (snd (bootstrap_if_needed env data st)) = trace st @ es
        \<and> (\<forall>a. Call_uploadDeviceSigningKeys a \<notin> set es)"
proof (cases "\<not> truthy (getCrossSigningId env) \<and> bootstrap_calls_auth env")
  case False
  then show ?thesis
    by (auto simp add: bootstrap_if_needed_def emit_effect_def)
next
  case True
  let ?st1 = "emit_effect Call_bootstrapCrossSigning st"
  obtain es where es:
    "trace (snd (authUploadDeviceSigningKeys env data (makeRequest env) ?st1)) = trace ?st1 @ es"
    "\<forall>a. Call_uploadDeviceSigningKeys a \<notin> set es"
    using authUploadDeviceSigningKeys_trace [of env data "makeRequest env" ?st1] by blast
  obtain r st2 where r: "authUploadDeviceSigningKeys env data (makeRequest env) ?st1 = (r, st2)"
    by (cases "authUploadDeviceSigningKeys env data (makeRequest env) ?st1")
  have "trace (snd (bootstrap_if_needed env data st))
        = trace st @ Call_bootstrapCrossSigning # es"
    using True es r by (cases r) (simp_all add: bootstrap_if_needed_def emit_effect_def)
  then show ?thesis using es(2) by auto
qed

lemma runClient_no_upload:
  "Call_uploadDeviceSigningKeys a \<notin> set (new_effects st (snd (runClient env fp cr st)))"
proof -
  have try_trace: "\<exists>es. trace (snd (runClient_try env data st)) = trace st @ es
        \<and> (\<forall>a. Call_uploadDeviceSigningKeys a \<notin> set es)" for data
  proof (cases data)
    case None
    then show ?thesis by (simp add: runClient_try_def)
  next
    case (Some d)
    let ?st1 = "emit_effect (Call_getCredentialsWithPassword (d ''username'') (d ''password'')
                  (d ''homeserverUrl'')) st"
    show ?thesis
    proof (cases "getCredentialsWithPassword env (d ''username'') (d ''password'') (d ''homeserverUrl'')")
      case (Inl e)
      then show ?thesis using Some
        by (simp add: runClient_try_def emit_effect_def)
    next
      case auth: (Inr sess)
      obtain tok uid did where sess: "sess = (tok, uid, did)"
        by (cases sess) auto
      let ?st2 = "emit_effect Call_initCrypto
                   (?st1\<lparr>client := Some (createClient (d ''homeserverUrl'') tok uid did)\<rparr>)"
      show ?thesis
      proof (cases "initCrypto env")
        case (Inl e)
        then show ?thesis using Some auth sess
          by (simp add: runClient_try_def emit_effect_def)
      next
        case crypto: (Inr u)
        let ?st3 = "?st2\<lparr>client := map_option configure_client (client ?st2)\<rparr>"
        obtain r st4 where started: "start_if_crypto env ?st3 = (r, st4)"
          by (cases "start_if_crypto env ?st3")
        have t4: "\<exists>es. trace st4 = trace st @ es
              \<and> (\<forall>a. Call_uploadDeviceSigningKeys a \<notin> set es)"
          using started
          by (auto simp add: start_if_crypto_def emit_effect_def Let_def
              split: if_splits sum.splits)
        show ?thesis
        proof (cases r)
          case (Inl e)
          then show ?thesis using Some auth sess crypto started t4
            by (simp add: runClient_try_def Let_def)
        next
          case (Inr u')
          then have run: "runClient_try env data st = bootstrap_if_needed env data st4"
            using Some auth sess crypto started by (simp add: runClient_try_def Let_def)
          obtain es where es: "trace st4 = trace st @ es"
            "\<forall>a. Call_uploadDeviceSigningKeys a \<notin> set es"
            using t4 by blast
          obtain es' where es': "trace (snd (bootstrap_if_needed env data st4)) = trace st4 @ es'"
            "\<forall>a. Call_uploadDeviceSigningKeys a \<notin> set es'"
            using bootstrap_if_needed_trace [of env data st4] by blast
          have "trace (snd (runClient_try env data st)) = trace st @ (es @ es')"
            using run es(1) es'(1) by simp
          moreover have "\<forall>a. Call_uploadDeviceSigningKeys a \<notin> set (es @ es')"
            using es(2) es'(2) by simp
          ultimately show ?thesis by blast
        qed
      qed
    qed
  qed
  show ?thesis
  proof (cases "load_credentials env fp (credentials_of cr)")
    case (Inl e)
    then show ?thesis by (simp add: runClient_def new_effects_def)
  next
    case (Inr data)
    obtain es where es: "trace (snd (runClient_try env data st)) = trace st @ es"
      "\<forall>a. Call_uploadDeviceSigningKeys a \<notin> set es"
      using try_trace [of data] by blast
    obtain r st' where r: "runClient_try env data st = (r, st')"
      by (cases "runClient_try env data st")
    show ?thesis
      using Inr es r
      by (cases r) (simp_all add: runClient_def emit_effect_def new_effects_def)
  qed
qed

text \<open>The first \<open>resolve\<close> or \<open>reject\<close> decides a promise for good.\<close>

lemma settle_once:
  "settle (settle Pending (Resolve v)) a = Fulfilled v"
  "settle (settle Pending (Reject e)) a = Rejected e"
  by simp_all

lemma isUserJoinedInRoom_initialized:
  "client st = Some c \<Longrightarrow> \<exists>b. isUserJoinedInRoom env rid st = Inr b"
  by (auto simp add: isUserJoinedInRoom_def split: option.splits)

lemma sendEncryptedMessage_try_effects:
  assumes "isUserJoinedInRoom env rid st = Inr b"
  shows "\<exists>es. trace (snd (sendEncryptedMessage_try env rid msg st))
              = trace st @ Call_setRoomEncryption rid megolm # es
            \<and> filter is_setRoomEncryption es = []"
proof (cases "setRoomEncryption env rid megolm")
  case (Inl e)
  then show ?thesis using assms
    by (simp add: sendEncryptedMessage_try_def emit_effect_def)
next
  case enc: (Inr u)
  show ?thesis
  proof (cases "JSON_stringify env msg")
    case (Inl e)
    then show ?thesis using assms enc
      by (simp add: sendEncryptedMessage_try_def emit_effect_def)
  next
    case js: (Inr b')
    show ?thesis
      using assms enc js
      by (cases "sendEvent env rid ''m.room.message'' \<lparr>body = b', msgtype = ''m.text''\<rparr>")
         (simp_all add: sendEncryptedMessage_try_def emit_effect_def)
  qed
qed

lemma sendEncryptedMessage_effects:
  assumes "isUserJoinedInRoom env rid st = Inr b"
  shows "filter is_setRoomEncryption (new_effects st (snd (sendEncryptedMessage env rid msg st)))
           = [Call_setRoomEncryption rid megolm]
       \<and> take 1 (new_effects st (snd (sendEncryptedMessage env rid msg st)))
           = [Call_setRoomEncryption rid megolm]"
proof -
  obtain es where es: "trace (snd (sendEncryptedMessage_try env rid msg st))
              = trace st @ Call_setRoomEncryption rid megolm # es"
    "filter is_setRoomEncryption es = []"
    using sendEncryptedMessage_try_effects [OF assms] by blast
  obtain r st' where r: "sendEncryptedMessage_try env rid msg st = (r, st')"
    by (cases "sendEncryptedMessage_try env rid msg st")
  show ?thesis
    using es r
    by (cases r) (simp_all add: sendEncryptedMessage_def emit_effect_def new_effects_def)
qed

lemma sendEncryptedMessage_try_getRoom:
  assumes "client st = Some c"
  shows "sendEncryptedMessage_try (env\<lparr>getRoom := g\<rparr>) rid msg st
         = sendEncryptedMessage_try env rid msg st"
proof -
  obtain b where b: "isUserJoinedInRoom env rid st = Inr b"
    using isUserJoinedInRoom_initialized [OF assms] by blast
  obtain b' where b': "isUserJoinedInRoom (env\<lparr>getRoom := g\<rparr>) rid st = Inr b'"
    using isUserJoinedInRoom_initialized [OF assms] by blast
  show ?thesis
  proof (cases "setRoomEncryption env rid megolm")
    case (Inl e)
    then show ?thesis using b b'
      by (simp add: sendEncryptedMessage_try_def)
  next
    case enc: (Inr u)
    show ?thesis
    proof (cases "JSON_stringify env msg")
      case (Inl e)
      then show ?thesis using b b' enc
        by (simp add: sendEncryptedMessage_try_def)
    next
      case js: (Inr t)
      show ?thesis
        using b b' enc js
        by (cases "sendEvent env rid ''m.room.message'' \<lparr>body = t, msgtype = ''m.text''\<rparr>")
           (simp_all add: sendEncryptedMessage_try_def)
    qed
  qed
qed

lemma sendEncryptedMessage_getRoom:
  "sendEncryptedMessage (env\<lparr>getRoom := g\<rparr>) rid msg st = sendEncryptedMessage env rid msg st"
proof (cases "client st")
  case None
  then show ?thesis
    by (simp add: sendEncryptedMessage_def sendEncryptedMessage_try_def isUserJoinedInRoom_def)
next
  case (Some c)
  then show ?thesis
    by (simp add: sendEncryptedMessage_def sendEncryptedMessage_try_getRoom)
qed

text \<open>No operation but \<open>runClient\<close> touches the trust settings.\<close>

lemma sendEncryptedMessage_client:
  "client (snd (sendEncryptedMessage env rid msg st)) = client st"
  by (auto simp add: sendEncryptedMessage_def sendEncryptedMessage_try_def emit_effect_def Let_def
      split: sum.splits prod.splits)

lemma inviteUser_client:
  "client (snd (inviteUser env rid uid st)) = client st"
  by (auto simp add: inviteUser_def getMyPowerLevel_def getMyPowerLevel_try_def emit_effect_def
      Let_def split: sum.splits prod.splits option.splits if_splits)

lemma on_RoomMember_membership_client:
  "client (snd (on_RoomMember_membership env member st)) = client st"
  by (auto simp add: on_RoomMember_membership_def emit_effect_def Let_def
      split: sum.splits option.splits)

lemma trust_flags_emit: "trust_flags (emit_effect e st) = trust_flags st"
  by (simp add: trust_flags_def emit_effect_def)

lemma client_on_trust_flags: "client_on n l st = Inr st' \<Longrightarrow> trust_flags st' = trust_flags st"
  by (auto simp add: client_on_def trust_flags_def add_listener_def split: option.splits)

lemma getMessageEncrypted_trust_flags:
  "trust_flags (snd (getMessageEncrypted env rid st)) = trust_flags st"
  by (auto simp add: getMessageEncrypted_def Let_def trust_flags_emit dest!: client_on_trust_flags
      split: sum.splits if_splits)

lemma messageListenerEncrypted_trust_flags:
  "trust_flags (messageListenerEncrypted env rid st) = trust_flags st"
  by (auto simp add: messageListenerEncrypted_def Let_def trust_flags_emit
      dest!: client_on_trust_flags split: sum.splits if_splits)

lemma joined_rooms_eq:
  "client st = Some c \<Longrightarrow>
   joined_rooms env member st =
     (if membership member = ''invite'' \<and> member_userId member = userId c
      then [member_roomId member] else [])"
  by (auto simp add: joined_rooms_def on_RoomMember_membership_def emit_effect_def Let_def
      new_effects_def split: sum.splits)

subsection \<open>Decryption failures in the encrypted listeners\<close>

text \<open>
  C1 (as amended).  An event handed to the \<open>Event.decrypted\<close> listener of
  \<open>getMessageEncrypted\<close> or of \<open>messageListenerEncrypted\<close> makes the listener
  throw exactly when it has type \<open>m.room.encrypted\<close> and is a decryption failure
  (for \<open>messageListenerEncrypted\<close>: and belongs to the listened room), and what is
  thrown is \<open>Error("Failed to decrypt message: ")\<close>.  The error leaves the listener
  as an exception; neither listener ever calls \<open>reject\<close>.  Only the separate
  \<open>Event.decryption_failure\<close> listener of \<open>getMessageEncrypted\<close> rejects the
  promise, with the error it is given, after printing it.
\<close>

theorem decryption_failure_thrown_in_listener:
  "(getMessageEncrypted_listener ev = Throw err
      \<longleftrightarrow> getType ev = ''m.room.encrypted'' \<and> isDecryptionFailure ev
          \<and> err = Error ''Failed to decrypt message: '')
   \<and> (messageListenerEncrypted_listener rid ev = Throw err
      \<longleftrightarrow> getRoomId ev = rid \<and> getType ev = ''m.room.encrypted'' \<and> isDecryptionFailure ev
          \<and> err = Error ''Failed to decrypt message: '')
   \<and> getMessageEncrypted_listener ev \<noteq> Reject err
   \<and> messageListenerEncrypted_listener rid ev \<noteq> Reject err
   \<and> getMessageEncrypted_failure_listener err st =
       (Reject err, emit_effect (ConsoleError [Str ''Error decrypting event: '', Err err]) st)"
  by (auto simp add: getMessageEncrypted_listener_def messageListenerEncrypted_listener_def
      getMessageEncrypted_failure_listener_def)

theorem decryption_failure_thrown_in_listener_witness:
  "getMessageEncrypted_listener undecryptable = Throw (Error ''Failed to decrypt message: '')
   \<and> messageListenerEncrypted_listener lobby undecryptable
       = Throw (Error ''Failed to decrypt message: '')
   \<and> getMessageEncrypted_listener greeting \<noteq> Throw (Error ''Failed to decrypt message: '')"
  using decryption_failure_thrown_in_listener
      [of undecryptable "Error ''Failed to decrypt message: ''" lobby]
    decryption_failure_thrown_in_listener
      [of greeting "Error ''Failed to decrypt message: ''" lobby]
  by (simp add: undecryptable_def greeting_def)

text \<open>
  C1 as stated fails: on an undecryptable event both listeners throw.
\<close>

theorem decryption_failure_thrown_counterexample:
  "isDecryptionFailure undecryptable
   \<and> getMessageEncrypted_listener undecryptable = Throw (Error ''Failed to decrypt message: '')
   \<and> messageListenerEncrypted_listener lobby undecryptable
       = Throw (Error ''Failed to decrypt message: '')"
  by (simp add: undecryptable_def getMessageEncrypted_listener_def
      messageListenerEncrypted_listener_def)

subsection \<open>Failures of \<open>sendEncryptedMessage\<close>\<close>




subsection \<open>The cross-signing bootstrap\<close>

text \<open>
  C3.  The first half holds: when the account already has a cross-signing identity,
  \<open>runClient\<close> skips the bootstrap; the step changes nothing, and the run calls
  neither \<open>bootstrapCrossSigning\<close> nor \<open>login\<close>.  When there is none, the
  callback \<open>authUploadDeviceSigningKeys\<close> logs in again with the user's name and
  password (\<open>m.login.password\<close>) and builds credentials that carry the access token
  of that login, not the token the client was created with.  But it returns them
  instead of passing them to the upload function it is called with: it does the same
  whatever that function is, and no run of \<open>runClient\<close> asks for an upload of the
  signing keys.  On a first start where every call succeeds the trace is exactly: login
  helper, \<open>initCrypto\<close>, the start of the client, \<open>bootstrapCrossSigning\<close>, the
  password login, and a line on the console if the bootstrap fails.  So the upload
  that the claim says uses the fresh token is never requested.
\<close>

theorem bootstrap_skipped_or_relogin_without_upload:
  "(truthy (getCrossSigningId env) \<longrightarrow>
       bootstrap_if_needed env data st = (Inr (), st)
     \<and> Call_bootstrapCrossSigning \<notin> set (new_effects st (snd (runClient env fp cr st)))
     \<and> (\<forall>t u p. Call_login t u p \<notin> set (new_effects st (snd (runClient env fp cr st)))))
   \<and> (client st = Some c
       \<and> login env ''m.login.password'' (d ''username'') (d ''password'') = Inr fresh \<longrightarrow>
       authUploadDeviceSigningKeys env (Some d) mk st =
         (Inr \<lparr>user_id = userId c, device_id = deviceId c, access_token = fresh\<rparr>,
          emit_effect (Call_login ''m.login.password'' (d ''username'') (d ''password'')) st))
   \<and> authUploadDeviceSigningKeys env data mk st = authUploadDeviceSigningKeys env data mk' st
   \<and> Call_uploadDeviceSigningKeys a \<notin> set (new_effects st (snd (runClient env fp cr st)))
   \<and> (load_credentials env fp (credentials_of cr) = Inr (Some d)
       \<and> getCredentialsWithPassword env (d ''username'') (d ''password'') (d ''homeserverUrl'')
           = Inr (tok, uid, did)
       \<and> initCrypto env = Inr ()
       \<and> (isCryptoEnabled env \<longrightarrow> startClient env = Inr ())
       \<and> \<not> truthy (getCrossSigningId env) \<and> bootstrap_calls_auth env
       \<and> login env ''m.login.password'' (d ''username'') (d ''password'') = Inr fresh \<longrightarrow>
       new_effects st (snd (runClient env fp cr st)) =
         [Call_getCredentialsWithPassword (d ''username'') (d ''password'') (d ''homeserverUrl''),
          Call_initCrypto]
         @ (if isCryptoEnabled env
            then [ConsoleLog [Str ''STARTING client, crypto enabled''], Call_startClient 1]
            else [])
         @ [Call_bootstrapCrossSigning,
            Call_login ''m.login.password'' (d ''username'') (d ''password'')]
         @ (case bootstrapCrossSigning env (Some (Inr ())) of
              Inl e \<Rightarrow> [ConsoleError [message_arg e]]
            | Inr _ \<Rightarrow> []))"
proof -
  have skipped: "bootstrap_if_needed env data st = (Inr (), st)"
    if "truthy (getCrossSigningId env)"
    using that by (simp add: bootstrap_if_needed_def)
  show ?thesis
    using skipped runClient_no_bootstrap [of env st fp cr]
      authUploadDeviceSigningKeys_returns_fresh_token [of st c env d fresh mk]
      authUploadDeviceSigningKeys_ignores_argument [of env data mk st mk']
      runClient_no_upload [of a st env fp cr]
      runClient_bootstrap_trace [of env fp cr d tok uid did fresh st]
    by blast
qed

text \<open>
  The first start of an account without a cross-signing identity, on a server that
  would accept an upload with the fresh token: the callback returns credentials with
  that token, and the run ends without any upload.
\<close>

theorem bootstrap_skipped_or_relogin_without_upload_witness:
  "fst (authUploadDeviceSigningKeys example_env (Some alice_credentials)
          (makeRequest example_env) running_state)
     = Inr \<lparr>user_id = alice, device_id = ''DEVICE'', access_token = ''fresh-token''\<rparr>
   \<and> uploadDeviceSigningKeys example_env
        \<lparr>user_id = alice, device_id = ''DEVICE'', access_token = ''fresh-token''\<rparr> = Inr ()
   \<and> new_effects initial_state (snd (runClient example_env None (Obj alice_credentials) initial_state))
     = [Call_getCredentialsWithPassword (Some ''alice'') (Some ''secret'') (Some ''https://example.org''),
        Call_initCrypto,
        ConsoleLog [Str ''STARTING client, crypto enabled''],
        Call_startClient 1,
        Call_bootstrapCrossSigning,
        Call_login ''m.login.password'' (Some ''alice'') (Some ''secret'')]
   \<and> Call_bootstrapCrossSigning \<notin> set (new_effects initial_state
        (snd (runClient cross_signed_env None (Obj alice_credentials) initial_state)))"
proof -
  have load: "load_credentials example_env None (credentials_of (Obj alice_credentials))
      = Inr (Some alice_credentials)"
    by (rule load_alice_credentials) (simp add: example_env_def)
  have auth: "getCredentialsWithPassword example_env (alice_credentials ''username'')
      (alice_credentials ''password'') (alice_credentials ''homeserverUrl'')
      = Inr (''cached-token'', alice, ''DEVICE'')"
    by (simp add: example_env_def)
  have rest: "initCrypto example_env = Inr ()"
    "isCryptoEnabled example_env \<longrightarrow> startClient example_env = Inr ()"
    "\<not> truthy (getCrossSigningId example_env)" "bootstrap_calls_auth example_env"
    "login example_env ''m.login.password'' (alice_credentials ''username'')
       (alice_credentials ''password'') = Inr ''fresh-token''"
    by (simp_all add: example_env_def truthy_def)
  have c: "client running_state = Some alice_client"
    by (simp add: running_state_def)
  have ids: "userId alice_client = alice" "deviceId alice_client = ''DEVICE''"
    by (simp_all add: alice_client_def configure_client_def createClient_def add_listener_def)
  have accepted: "uploadDeviceSigningKeys example_env
        \<lparr>user_id = alice, device_id = ''DEVICE'', access_token = ''fresh-token''\<rparr> = Inr ()"
    by (simp add: example_env_def)
  have returned: "authUploadDeviceSigningKeys example_env (Some alice_credentials)
          (makeRequest example_env) running_state
     = (Inr \<lparr>user_id = userId alice_client, device_id = deviceId alice_client,
              access_token = ''fresh-token''\<rparr>,
        emit_effect (Call_login ''m.login.password'' (alice_credentials ''username'')
          (alice_credentials ''password'')) running_state)"
    using bootstrap_skipped_or_relogin_without_upload
        [where env = example_env and st = running_state and c = alice_client
           and d = alice_credentials and fresh = "''fresh-token''"
           and mk = "makeRequest example_env"]
      c rest(5)
    by blast
  have first: "new_effects initial_state
      (snd (runClient example_env None (Obj alice_credentials) initial_state)) =
         [Call_getCredentialsWithPassword (alice_credentials ''username'')
            (alice_credentials ''password'') (alice_credentials ''homeserverUrl''),
          Call_initCrypto]
         @ (if isCryptoEnabled example_env
            then [ConsoleLog [Str ''STARTING client, crypto enabled''], Call_startClient 1]
            else [])
         @ [Call_bootstrapCrossSigning,
            Call_login ''m.login.password'' (alice_credentials ''username'')
              (alice_credentials ''password'')]
         @ (case bootstrapCrossSigning example_env (Some (Inr ())) of
              Inl e \<Rightarrow> [ConsoleError [message_arg e]]
            | Inr _ \<Rightarrow> [])"
    using bootstrap_skipped_or_relogin_without_upload
        [where env = example_env and fp = None and cr = "Obj alice_credentials"
           and d = alice_credentials and tok = "''cached-token''" and uid = alice
           and did = "''DEVICE''" and fresh = "''fresh-token''" and st = initial_state]
      load auth rest
    by blast
  have known: "truthy (getCrossSigningId cross_signed_env)"
    by (simp add: cross_signed_env_def truthy_def)
  have second: "Call_bootstrapCrossSigning \<notin> set (new_effects initial_state
        (snd (runClient cross_signed_env None (Obj alice_credentials) initial_state)))"
    using bootstrap_skipped_or_relogin_without_upload
        [where env = cross_signed_env and fp = None and cr = "Obj alice_credentials"
           and st = initial_state]
      known
    by blast
  from returned ids accepted first second show ?thesis
    by (simp add: example_env_def alice_credentials_def)
qed

subsection \<open>Authentication failure at startup\<close>

text \<open>
  C4 (as amended).  When the login helper fails, \<open>runClient\<close> abandons the start:
  the helper has been called once and is not called again, no client is created (the
  global client stays as it was), the message of the error is printed with
  \<open>console.error\<close>, and the promise of \<open>runClient\<close> resolves.  The failure is
  not passed to the caller.
\<close>

theorem auth_failure_logged_and_startup_abandoned:
  assumes "load_credentials env fp (credentials_of cr) = Inr (Some d)"
      and "getCredentialsWithPassword env (d ''username'') (d ''password'') (d ''homeserverUrl'')
           = Inl e"
  shows "runClient env fp cr st =
           (Inr (), st\<lparr>trace := trace st @
              [Call_getCredentialsWithPassword (d ''username'') (d ''password'') (d ''homeserverUrl''),
               ConsoleError [message_arg e]]\<rparr>)"
  using assms by (simp add: runClient_def runClient_try_def emit_effect_def Let_def)

theorem auth_failure_logged_and_startup_abandoned_witness:
  "fst (runClient wrong_password_env None (Obj alice_credentials) initial_state) = Inr ()
   \<and> client (snd (runClient wrong_password_env None (Obj alice_credentials) initial_state)) = None
   \<and> trace (snd (runClient wrong_password_env None (Obj alice_credentials) initial_state)) =
       [Call_getCredentialsWithPassword (Some ''alice'') (Some ''secret'')
          (Some ''https://example.org''),
        ConsoleError [Str ''Invalid username or password'']]"
proof -
  have load: "load_credentials wrong_password_env None (credentials_of (Obj alice_credentials))
      = Inr (Some alice_credentials)"
    by (rule load_alice_credentials) (simp add: wrong_password_env_def example_env_def)
  have auth: "getCredentialsWithPassword wrong_password_env (alice_credentials ''username'')
      (alice_credentials ''password'') (alice_credentials ''homeserverUrl'')
      = Inl (Error ''Invalid username or password'')"
    by (simp add: wrong_password_env_def)
  show ?thesis
    using auth_failure_logged_and_startup_abandoned [OF load auth, of initial_state]
    by (simp add: initial_state_def alice_credentials_def message_arg_def)
qed

text \<open>
  C4 as stated fails: with a wrong password the promise of \<open>runClient\<close> resolves,
  after one line on the console.
\<close>

theorem auth_failure_not_surfaced_counterexample:
  "runClient wrong_password_env None (Obj alice_credentials) initial_state =
     (Inr (),
      \<lparr>client = None,
       trace = [Call_getCredentialsWithPassword (Some ''alice'') (Some ''secret'')
                  (Some ''https://example.org''),
                ConsoleError [Str ''Invalid username or password'']]\<rparr>)"
  by (simp add: runClient_def runClient_try_def load_credentials_def wrong_password_env_def
      example_env_def alice_credentials_def initial_state_def truthy_def missingProperties_def
      required_properties_def opt_prop_def select_data_def emit_effect_def message_arg_def Let_def)

subsection \<open>The trust settings after setup\<close>

text \<open>
  C6.  Once \<open>runClient\<close> has created the client and initialised its crypto, the
  client ignores unknown devices (\<open>ignore_unknown_devices\<close> is true), the global
  blacklist of unverified devices is off and the global error on unknown devices is
  off.  The settings belong to the client, not to a room, and no other operation of
  the module changes them.
\<close>

theorem permissive_trust_flags_after_setup:
  assumes "load_credentials env fp (credentials_of cr) = Inr (Some d)"
      and "getCredentialsWithPassword env (d ''username'') (d ''password'') (d ''homeserverUrl'')
           = Inr (tok, uid, did)"
      and "initCrypto env = Inr ()"
  shows "trust_flags (snd (runClient env fp cr st)) = Some (True, Some False, Some False)
       \<and> trust_flags (snd (sendEncryptedMessage env rid msg st')) = trust_flags st'
       \<and> trust_flags (snd (getMessageEncrypted env rid st')) = trust_flags st'
       \<and> trust_flags (messageListenerEncrypted env rid st') = trust_flags st'
       \<and> trust_flags (snd (inviteUser env rid uid' st')) = trust_flags st'
       \<and> trust_flags (snd (on_RoomMember_membership env member st')) = trust_flags st'"
proof -
  have "trust_flags (snd (runClient env fp cr st)) = Some (True, Some False, Some False)"
    using runClient_setup [OF assms, of st]
    by (simp add: trust_flags_def configure_client_def createClient_def add_listener_def)
  moreover have "trust_flags (snd (sendEncryptedMessage env rid msg st')) = trust_flags st'"
    by (simp add: trust_flags_def sendEncryptedMessage_client)
  moreover have "trust_flags (snd (inviteUser env rid uid' st')) = trust_flags st'"
    by (simp add: trust_flags_def inviteUser_client)
  moreover have "trust_flags (snd (on_RoomMember_membership env member st')) = trust_flags st'"
    by (simp add: trust_flags_def on_RoomMember_membership_client)
  ultimately show ?thesis
    by (simp add: getMessageEncrypted_trust_flags messageListenerEncrypted_trust_flags)
qed

theorem permissive_trust_flags_after_setup_witness:
  "trust_flags (snd (runClient example_env None (Obj alice_credentials) initial_state))
     = Some (True, Some False, Some False)"
proof -
  have load: "load_credentials example_env None (credentials_of (Obj alice_credentials))
      = Inr (Some alice_credentials)"
    by (rule load_alice_credentials) (simp add: example_env_def)
  have auth: "getCredentialsWithPassword example_env (alice_credentials ''username'')
      (alice_credentials ''password'') (alice_credentials ''homeserverUrl'')
      = Inr (''cached-token'', alice, ''DEVICE'')"
    by (simp add: example_env_def)
  have crypto: "initCrypto example_env = Inr ()"
    by (simp add: example_env_def)
  show ?thesis
    by (rule permissive_trust_flags_after_setup [OF load auth crypto, THEN conjunct1])
qed

subsection \<open>The timeline listeners\<close>

text \<open>
  C7.  The \<open>Room.timeline\<close> listeners of \<open>getMessage\<close> and \<open>messageListener\<close>
  deliver only events that are not pagination replay (\<open>toStartOfTimeline\<close> false)
  and have type \<open>m.room.message\<close>; every other event is dropped without resolving
  and without calling the callback; and what is delivered is the body of the event's
  content.  \<open>getMessage\<close> resolves for exactly these events; \<open>messageListener\<close>
  calls its callback for exactly those of them that come from its own room.
\<close>

theorem timeline_listeners_filter:
  "(getMessage_listener ev rm toStart = Resolve v
      \<longleftrightarrow> \<not> toStart \<and> getType ev = ''m.room.message'' \<and> v = content_body ev)
   \<and> (toStart \<or> getType ev \<noteq> ''m.room.message''
      \<longrightarrow> getMessage_listener ev rm toStart = NoAction)
   \<and> getMessage_listener ev rm toStart \<noteq> Callback v
   \<and> (messageListener_listener rid ev rm toStart = Callback v
      \<longleftrightarrow> \<not> toStart \<and> getType ev = ''m.room.message''
          \<and> (\<exists>r. rm = Some r \<and> roomId r = rid) \<and> v = content_body ev)
   \<and> (toStart \<or> getType ev \<noteq> ''m.room.message''
      \<longrightarrow> messageListener_listener rid ev rm toStart = NoAction)
   \<and> messageListener_listener rid ev rm toStart \<noteq> Resolve v"
  by (auto simp add: getMessage_listener_def messageListener_listener_def
      split: option.splits if_splits)

theorem timeline_listeners_filter_witness:
  "getMessage_listener greeting (Some lobby_room) False = Resolve (Some ''hello'')
   \<and> getMessage_listener greeting (Some lobby_room) True = NoAction
   \<and> getMessage_listener undecryptable (Some lobby_room) False = NoAction
   \<and> messageListener_listener lobby greeting (Some lobby_room) False = Callback (Some ''hello'')
   \<and> messageListener_listener lobby greeting (Some lobby_room) True = NoAction
   \<and> messageListener_listener lobby undecryptable (Some lobby_room) False = NoAction"
  using timeline_listeners_filter [of greeting "Some lobby_room" False "Some ''hello''" lobby]
    timeline_listeners_filter [of greeting "Some lobby_room" True "Some ''hello''" lobby]
    timeline_listeners_filter [of undecryptable "Some lobby_room" False "Some ''hello''" lobby]
  by (simp add: greeting_def undecryptable_def lobby_room_def)

subsection \<open>Joining on invitation\<close>

text \<open>
  C8.  After \<open>runClient\<close> has set the client up for user \<open>uid\<close>, the
  \<open>RoomMember.membership\<close> listener is registered, and for every membership event
  it asks to join the event's room exactly when the membership is \<open>invite\<close> and the
  invited user is \<open>uid\<close>; for any other event, an invitation of somebody else
  included, it joins nothing.
\<close>

theorem auto_join_own_invites_only:
  assumes "load_credentials env fp (credentials_of cr) = Inr (Some d)"
      and "getCredentialsWithPassword env (d ''username'') (d ''password'') (d ''homeserverUrl'')
           = Inr (tok, uid, did)"
      and "initCrypto env = Inr ()"
      and "client st' = client (snd (runClient env fp cr st))"
  shows "(\<exists>c. client st' = Some c \<and> userId c = uid
            \<and> (''RoomMember.membership'', AutoJoin) \<in> set (listeners c))
       \<and> joined_rooms env member st' =
           (if membership member = ''invite'' \<and> member_userId member = uid
            then [member_roomId member] else [])"
proof -
  let ?c = "configure_client (createClient (d ''homeserverUrl'') tok uid did)"
  have c: "client st' = Some ?c"
    using runClient_setup [OF assms(1-3), of st] assms(4) by simp
  have uid: "userId ?c = uid"
    by (simp add: configure_client_def createClient_def add_listener_def)
  have reg: "(''RoomMember.membership'', AutoJoin) \<in> set (listeners ?c)"
    by (simp add: configure_client_def createClient_def add_listener_def)
  show ?thesis
    using c uid reg joined_rooms_eq [OF c, of env member] by simp
qed

theorem auto_join_own_invites_only_witness:
  "joined_rooms example_env (invitation alice)
     (snd (runClient example_env None (Obj alice_credentials) initial_state)) = [lobby]
   \<and> joined_rooms example_env (invitation ''@bob:example.org'')
     (snd (runClient example_env None (Obj alice_credentials) initial_state)) = []
   \<and> joined_rooms example_env alice_in_lobby
     (snd (runClient example_env None (Obj alice_credentials) initial_state)) = []"
proof -
  have load: "load_credentials example_env None (credentials_of (Obj alice_credentials))
      = Inr (Some alice_credentials)"
    by (rule load_alice_credentials) (simp add: example_env_def)
  have auth: "getCredentialsWithPassword example_env (alice_credentials ''username'')
      (alice_credentials ''password'') (alice_credentials ''homeserverUrl'')
      = Inr (''cached-token'', alice, ''DEVICE'')"
    by (simp add: example_env_def)
  have crypto: "initCrypto example_env = Inr ()"
    by (simp add: example_env_def)
  note own = auto_join_own_invites_only [OF load auth crypto refl, of initial_state]
  show ?thesis
    using own [of "invitation alice"] own [of "invitation ''@bob:example.org''"]
      own [of alice_in_lobby]
    by (simp add: invitation_def alice_in_lobby_def alice_def)
qed

subsection \<open>The membership check of \<open>sendEncryptedMessage\<close>\<close>

text \<open>
  C9.  What \<open>sendEncryptedMessage\<close> does is the same whatever the room lookup of
  the membership check answers, so whether the check says joined or not joined.  With
  an initialised client it goes on after the check: it requests the encryption of the
  room, and when that request and \<open>JSON.stringify\<close> succeed it sends the
  \<open>m.room.message\<close> event with the stringified message and prints the outcome of
  the send; when the request fails, it prints that error and sends nothing.
\<close>

theorem membership_answer_discarded:
  "sendEncryptedMessage (env\<lparr>getRoom := g\<rparr>) rid msg st = sendEncryptedMessage env rid msg st
   \<and> (client st \<noteq> None \<longrightarrow>
        take 1 (new_effects st (snd (sendEncryptedMessage env rid msg st)))
          = [Call_setRoomEncryption rid megolm])
   \<and> (client st \<noteq> None \<and> setRoomEncryption env rid megolm = Inr ()
        \<and> JSON_stringify env msg = Inr b \<longrightarrow>
        sendEncryptedMessage env rid msg st =
          (Inr (), st\<lparr>trace := trace st @
             [Call_setRoomEncryption rid megolm,
              Call_sendEvent rid ''m.room.message'' \<lparr>body = b, msgtype = ''m.text''\<rparr>,
              (case sendEvent env rid ''m.room.message'' \<lparr>body = b, msgtype = ''m.text''\<rparr> of
                 Inl e \<Rightarrow> ConsoleError [Str ''Error sending encrypted message:'', Err e]
               | Inr _ \<Rightarrow> ConsoleLog [Str ''Encrypted message sent successfully.''])]\<rparr>))
   \<and> (client st \<noteq> None \<and> setRoomEncryption env rid megolm = Inl e \<longrightarrow>
        sendEncryptedMessage env rid msg st =
          (Inr (), st\<lparr>trace := trace st @
             [Call_setRoomEncryption rid megolm,
              ConsoleError [Str ''Error sending encrypted message:'', Err e]]\<rparr>))"
proof -
  have joined: "\<exists>b. isUserJoinedInRoom env rid st = Inr b" if "client st \<noteq> None"
    using that isUserJoinedInRoom_initialized [of st _ env rid] by auto
  have first: "take 1 (new_effects st (snd (sendEncryptedMessage env rid msg st)))
          = [Call_setRoomEncryption rid megolm]" if "client st \<noteq> None"
    using joined [OF that] sendEncryptedMessage_effects [of env rid st _ msg] by blast
  have sends: "sendEncryptedMessage env rid msg st =
          (Inr (), st\<lparr>trace := trace st @
             [Call_setRoomEncryption rid megolm,
              Call_sendEvent rid ''m.room.message'' \<lparr>body = b, msgtype = ''m.text''\<rparr>,
              (case sendEvent env rid ''m.room.message'' \<lparr>body = b, msgtype = ''m.text''\<rparr> of
                 Inl e \<Rightarrow> ConsoleError [Str ''Error sending encrypted message:'', Err e]
               | Inr _ \<Rightarrow> ConsoleLog [Str ''Encrypted message sent successfully.''])]\<rparr>)"
    if init: "client st \<noteq> None" and enc: "setRoomEncryption env rid megolm = Inr ()"
      and js: "JSON_stringify env msg = Inr b"
  proof -
    obtain j where j: "isUserJoinedInRoom env rid st = Inr j"
      using joined [OF init] by blast
    show ?thesis
      using j enc js
      by (cases "sendEvent env rid ''m.room.message'' \<lparr>body = b, msgtype = ''m.text''\<rparr>")
         (simp_all add: sendEncryptedMessage_def sendEncryptedMessage_try_def emit_effect_def)
  qed
  have refused: "sendEncryptedMessage env rid msg st =
          (Inr (), st\<lparr>trace := trace st @
             [Call_setRoomEncryption rid megolm,
              ConsoleError [Str ''Error sending encrypted message:'', Err e]]\<rparr>)"
    if init: "client st \<noteq> None" and enc: "setRoomEncryption env rid megolm = Inl e"
  proof -
    obtain j where j: "isUserJoinedInRoom env rid st = Inr j"
      using joined [OF init] by blast
    show ?thesis
      using j enc
      by (simp add: sendEncryptedMessage_def sendEncryptedMessage_try_def emit_effect_def)
  qed
  show ?thesis
    using first sends refused
      sendEncryptedMessage_getRoom
        [where env = env and g = g and rid = rid and msg = msg and st = st]
    by blast
qed

theorem membership_answer_discarded_witness:
  "isUserJoinedInRoom example_env lobby running_state = Inr True
   \<and> isUserJoinedInRoom (example_env\<lparr>getRoom := (\<lambda>r. None)\<rparr>) lobby running_state = Inr False
   \<and> sendEncryptedMessage (example_env\<lparr>getRoom := (\<lambda>r. None)\<rparr>) lobby ''hello'' running_state
       = sendEncryptedMessage example_env lobby ''hello'' running_state
   \<and> new_effects running_state
         (snd (sendEncryptedMessage example_env lobby ''hello'' running_state))
       = [Call_setRoomEncryption lobby megolm,
          Call_sendEvent lobby ''m.room.message'' \<lparr>body = Some ''hello'', msgtype = ''m.text''\<rparr>,
          ConsoleLog [Str ''Encrypted message sent successfully.'']]
   \<and> new_effects running_state
         (snd (sendEncryptedMessage (example_env\<lparr>getRoom := (\<lambda>r. None)\<rparr>) lobby ''hello''
                running_state))
       = [Call_setRoomEncryption lobby megolm,
          Call_sendEvent lobby ''m.room.message'' \<lparr>body = Some ''hello'', msgtype = ''m.text''\<rparr>,
          ConsoleLog [Str ''Encrypted message sent successfully.'']]"
proof -
  have c: "client running_state \<noteq> None"
    by (simp add: running_state_def)
  have yes: "isUserJoinedInRoom example_env lobby running_state = Inr True"
    by (simp add: isUserJoinedInRoom_def example_defs)
  have no: "isUserJoinedInRoom (example_env\<lparr>getRoom := (\<lambda>r. None)\<rparr>) lobby running_state
      = Inr False"
    by (simp add: isUserJoinedInRoom_def running_state_def)
  have enc: "setRoomEncryption example_env lobby megolm = Inr ()"
    and js: "JSON_stringify example_env ''hello'' = Inr (Some ''hello'')"
    and sent: "sendEvent example_env lobby ''m.room.message''
                 \<lparr>body = Some ''hello'', msgtype = ''m.text''\<rparr> = Inr ()"
    by (simp_all add: example_env_def)
  note inst = membership_answer_discarded
        [where env = example_env and g = "\<lambda>r. None" and rid = lobby and msg = "''hello''"
           and st = running_state and b = "Some ''hello''"]
  have same: "sendEncryptedMessage (example_env\<lparr>getRoom := (\<lambda>r. None)\<rparr>) lobby ''hello''
        running_state = sendEncryptedMessage example_env lobby ''hello'' running_state"
    using inst by blast
  have run: "sendEncryptedMessage example_env lobby ''hello'' running_state =
          (Inr (), running_state\<lparr>trace := trace running_state @
             [Call_setRoomEncryption lobby megolm,
              Call_sendEvent lobby ''m.room.message''
                \<lparr>body = Some ''hello'', msgtype = ''m.text''\<rparr>,
              (case sendEvent example_env lobby ''m.room.message''
                      \<lparr>body = Some ''hello'', msgtype = ''m.text''\<rparr> of
                 Inl e \<Rightarrow> ConsoleError [Str ''Error sending encrypted message:'', Err e]
               | Inr _ \<Rightarrow> ConsoleLog [Str ''Encrypted message sent successfully.''])]\<rparr>)"
    using inst c enc js by blast
  have effects: "new_effects running_state
         (snd (sendEncryptedMessage example_env lobby ''hello'' running_state))
       = [Call_setRoomEncryption lobby megolm,
          Call_sendEvent lobby ''m.room.message'' \<lparr>body = Some ''hello'', msgtype = ''m.text''\<rparr>,
          ConsoleLog [Str ''Encrypted message sent successfully.'']]"
    by (simp add: run sent new_effects_def)
  show ?thesis
    using yes no same effects by simp
qed

subsection \<open>The permission check of \<open>inviteUser\<close>\<close>

text \<open>
  C10.  With the power levels of the room and the caller's own member entry at hand,
  \<open>inviteUser\<close> fails with \<open>Error: You dont have permission to invite users\<close>
  without asking for the invitation exactly when the level the room requires for
  inviting is greater than the caller's own level (a room that states no such level
  requires none); otherwise it asks the server to invite the user, after the two
  lookups and nothing else, and ends as that request ends.
\<close>

theorem inviteUser_permission_check:
  assumes "client st = Some c"
      and "getStateEvent env rid ''m.room.power_levels'' [] = Inr powerLevels"
      and "roomInitialSync env rid 10 = Inr ()"
      and "getRoom env rid = Some r"
      and "getMember r (userId c) = Some me"
  shows "(fst (inviteUser env rid uid st) = Inl permission_error
            \<and> Call_invite rid uid \<notin> set (new_effects st (snd (inviteUser env rid uid st)))
          \<longleftrightarrow> js_gt (pl_invite powerLevels) (powerLevel me))
       \<and> (\<not> js_gt (pl_invite powerLevels) (powerLevel me) \<longrightarrow>
            fst (inviteUser env rid uid st) = invite env rid uid
          \<and> new_effects st (snd (inviteUser env rid uid st)) =
              [Call_getStateEvent rid ''m.room.power_levels'' [], Call_roomInitialSync rid 10,
               Call_invite rid uid])
       \<and> (\<forall>required. pl_invite powerLevels = Some required \<longrightarrow>
            js_gt (pl_invite powerLevels) (powerLevel me) = (required > powerLevel me))
       \<and> permission_error = Error ''Error: You dont have permission to invite users''"
  using assms
  by (auto simp add: inviteUser_def getMyPowerLevel_def getMyPowerLevel_try_def js_gt_def
      emit_effect_def Let_def new_effects_def permission_error_def
      split: sum.splits prod.splits option.splits if_splits)

theorem inviteUser_permission_check_witness:
  "fst (inviteUser admin_only_env lobby ''@bob:example.org'' running_state)
     = Inl (Error ''Error: You dont have permission to invite users'')
   \<and> Call_invite lobby ''@bob:example.org'' \<notin> set (new_effects running_state
        (snd (inviteUser admin_only_env lobby ''@bob:example.org'' running_state)))
   \<and> fst (inviteUser example_env lobby ''@bob:example.org'' running_state) = Inr ()
   \<and> new_effects running_state
        (snd (inviteUser example_env lobby ''@bob:example.org'' running_state))
      = [Call_getStateEvent lobby ''m.room.power_levels'' [], Call_roomInitialSync lobby 10,
         Call_invite lobby ''@bob:example.org'']"
proof -
  have c: "client running_state = Some alice_client"
    by (simp add: running_state_def)
  have me: "getMember lobby_room (userId alice_client) = Some alice_in_lobby"
    by (simp add: example_defs)
  have level: "powerLevel alice_in_lobby = 50"
    by (simp add: alice_in_lobby_def)
  have strict: "getStateEvent admin_only_env lobby ''m.room.power_levels'' []
      = Inr \<lparr>pl_invite = Some 100\<rparr>"
    "roomInitialSync admin_only_env lobby 10 = Inr ()"
    "getRoom admin_only_env lobby = Some lobby_room"
    by (simp_all add: admin_only_env_def example_env_def)
  have open_room: "getStateEvent example_env lobby ''m.room.power_levels'' []
      = Inr \<lparr>pl_invite = Some 50\<rparr>"
    "roomInitialSync example_env lobby 10 = Inr ()"
    "getRoom example_env lobby = Some lobby_room"
    "invite example_env lobby ''@bob:example.org'' = Inr ()"
    by (simp_all add: example_env_def)
  show ?thesis
    using inviteUser_permission_check [OF c strict me, of "''@bob:example.org''"]
      inviteUser_permission_check [OF c open_room(1-3) me, of "''@bob:example.org''"]
      open_room(4) level
    by (simp add: js_gt_def)
qed

end
